theory Spec2Isabelle
  imports Main
begin

section \<open>Values, errors and outcomes\<close>

text \<open>
  The functions of \<^verbatim>\<open>internal/service/elasticache/diff.go\<close> read fields of a
  \<^verbatim>\<open>*schema.ResourceDiff\<close> as \<^verbatim>\<open>interface{}\<close> values and narrow them with
  type assertions. A value of the interface type is modelled with its dynamic type; a
  failed assertion is a panic of the Go runtime. The functions compare a Go \<^verbatim>\<open>int\<close>
  with the constants 0 and 1 only and do no arithmetic on it, so its width plays no part
  and \<open>VInt\<close> carries an integer.
\<close>

datatype ValueType = TypeBool | TypeInt | TypeString

datatype val = VNil | VBool bool | VInt int | VString string

text \<open>\<^verbatim>\<open>ValueType.Zero()\<close> of the plugin SDK: the zero value of a schema type.\<close>

fun TypeZero :: "ValueType \<Rightarrow> val" where
  "TypeZero TypeBool = VBool False"
| "TypeZero TypeInt = VInt 0"
| "TypeZero TypeString = VString []"

text \<open>The dynamic type of an interface value; \<^verbatim>\<open>nil\<close> has none.\<close>

fun typeOf :: "val \<Rightarrow> ValueType option" where
  "typeOf VNil = None"
| "typeOf (VBool b) = Some TypeBool"
| "typeOf (VInt n) = Some TypeInt"
| "typeOf (VString s) = Some TypeString"

text \<open>
  The type assertions \<^verbatim>\<open>v.(string)\<close>, \<^verbatim>\<open>v.(int)\<close> and \<^verbatim>\<open>v.(bool)\<close>:
  \<open>None\<close> is the runtime panic of an assertion on a value of another dynamic type.
\<close>

fun assertString :: "val \<Rightarrow> string option" where
  "assertString (VString s) = Some s"
| "assertString v = None"

fun assertInt :: "val \<Rightarrow> int option" where
  "assertInt (VInt n) = Some n"
| "assertInt v = None"

fun assertBool :: "val \<Rightarrow> bool option" where
  "assertBool (VBool b) = Some b"
| "assertBool v = None"

text \<open>
  A \<^verbatim>\<open>*version.Version\<close> of \<^verbatim>\<open>hashicorp/go-version\<close>: the numeric segments
  (\<^verbatim>\<open>NewVersion\<close> pads them to at least three), the prerelease text and the build
  metadata.
\<close>

record Version =
  segments :: "int list"
  pre :: string
  metadata :: string

text \<open>
  Error values. \<open>ErrorsNew\<close> is \<^verbatim>\<open>errors.New\<close>, \<open>Errorf\<close> is \<^verbatim>\<open>fmt.Errorf\<close> with
  its format and arguments, \<open>ResourceNotFoundException\<close> is the typed exception of the
  OAM service, \<open>Wrapped\<close> is an error that wraps another one (it has an \<^verbatim>\<open>Unwrap\<close>
  method), and \<open>OtherError\<close> is any other error value.
\<close>

datatype fmtArg = ArgString string | ArgVersion Version

datatype error =
    ErrorsNew string
  | Errorf string "fmtArg list"
  | ResourceNotFoundException string
  | Wrapped string error
  | OtherError string

text \<open>A call either returns its result or panics.\<close>

datatype 'a outcome = Return 'a | Panic

section \<open>The resource diff\<close>

text \<open>
  \<^verbatim>\<open>schema.ResourceDiff\<close> belongs to the plugin SDK. The model keeps what the
  functions of diff.go can observe: the resource id, and for every key of the schema its
  declared type, its \<^verbatim>\<open>ForceNew\<close> flag, the value in the prior state and the value
  in the planned diff. A value is \<open>None\<close> where the reader reports that the field does
  not exist or is not yet known (computed).
\<close>

record Field =
  ftype :: ValueType
  fForceNew :: bool
  fold :: "val option"
  fnew :: "val option"

record ResourceDiff =
  resourceId :: string
  attrs :: "string \<rightharpoonup> Field"
  forcedNewKeys :: "string set"

text \<open>\<^verbatim>\<open>diff.Id()\<close>.\<close>

definition Id_diff :: "ResourceDiff \<Rightarrow> string" where
  "Id_diff diff = resourceId diff"

text \<open>
  \<^verbatim>\<open>diff.Get(key)\<close>: the planned value, the zero value of the schema type where
  there is none, and \<^verbatim>\<open>nil\<close> for a key the schema does not have.
\<close>

definition Get :: "ResourceDiff \<Rightarrow> string \<Rightarrow> val" where
  "Get diff key =
     (case attrs diff key of
        None \<Rightarrow> VNil
      | Some f \<Rightarrow> (case fnew f of None \<Rightarrow> TypeZero (ftype f) | Some v \<Rightarrow> v))"

text \<open>The same for the prior state, as \<^verbatim>\<open>GetChange\<close> reads it.\<close>

definition GetOld :: "ResourceDiff \<Rightarrow> string \<Rightarrow> val" where
  "GetOld diff key =
     (case attrs diff key of
        None \<Rightarrow> VNil
      | Some f \<Rightarrow> (case fold f of None \<Rightarrow> TypeZero (ftype f) | Some v \<Rightarrow> v))"

text \<open>
  \<^verbatim>\<open>diff.GetOk(key)\<close>: the value of \<open>Get\<close>, and whether the field exists, is known
  and differs from the zero value of its schema type.
\<close>

definition GetOk :: "ResourceDiff \<Rightarrow> string \<Rightarrow> val \<times> bool" where
  "GetOk diff key =
     (Get diff key,
      (case attrs diff key of
         None \<Rightarrow> False
       | Some f \<Rightarrow> (case fnew f of None \<Rightarrow> False | Some v \<Rightarrow> v \<noteq> TypeZero (ftype f))))"

text \<open>\<^verbatim>\<open>diff.HasChange(key)\<close>: the old and the new value differ.\<close>

definition HasChange :: "ResourceDiff \<Rightarrow> string \<Rightarrow> bool" where
  "HasChange diff key = (GetOld diff key \<noteq> Get diff key)"

text \<open>
  \<^verbatim>\<open>diff.ForceNew(key)\<close>: an error when the key has no change or is not a key of
  the schema; otherwise the schema's \<^verbatim>\<open>ForceNew\<close> flag of the key is set and the key
  is recorded in \<^verbatim>\<open>forcedNewKeys\<close>. The diff is behind a pointer, so the call
  returns the diff it leaves.
\<close>

definition ForceNew :: "ResourceDiff \<Rightarrow> string \<Rightarrow> error option \<times> ResourceDiff" where
  "ForceNew diff key =
     (if \<not> HasChange diff key
      then (Some (Errorf ''ForceNew: No changes for %s'' [ArgString key]), diff)
      else (case attrs diff key of
              None \<Rightarrow> (Some (Errorf ''ForceNew: %s is not a valid key'' [ArgString key]), diff)
            | Some f \<Rightarrow>
                (None, diff\<lparr>attrs := (attrs diff)(key \<mapsto> f\<lparr>fForceNew := True\<rparr>),
                            forcedNewKeys := insert key (forcedNewKeys diff)\<rparr>)))"

section \<open>Constants\<close>

text \<open>\<^verbatim>\<open>elasticache.AZModeCrossAz\<close> of the AWS SDK.\<close>

definition AZModeCrossAz :: string where
  "AZModeCrossAz = ''cross-az''"

text \<open>
  Modelled from the spec: the package constants \<^verbatim>\<open>engineMemcached\<close> and
  \<^verbatim>\<open>engineRedis\<close> are declared in another file of the package; their values are the engine names that the comments and the messages of
  diff.go use.
\<close>

definition engineMemcached :: string where
  "engineMemcached = ''memcached''"

definition engineRedis :: string where
  "engineRedis = ''redis''"

section \<open>The customize-diff functions of diff.go\<close>

text \<open>
  Each function receives a context, the diff behind a pointer and the provider's meta
  value, and returns an \<^verbatim>\<open>error\<close>; none of them uses the context or the meta value. The
  model returns the outcome (\<open>Return None\<close> is \<^verbatim>\<open>nil\<close>) together with the diff the
  call leaves. \<^verbatim>\<open>!ok || v.(T) ...\<close> evaluates the assertion only when \<^verbatim>\<open>ok\<close> holds.
\<close>

definition CustomizeDiffValidateClusterAZMode ::
  "ResourceDiff \<Rightarrow> error option outcome \<times> ResourceDiff" where
  \<open>CustomizeDiffValidateClusterAZMode diff =
     (case GetOk diff ''az_mode'' of (v, ok) \<Rightarrow>
        if \<not> ok then (Return None, diff)
        else (case assertString v of
                None \<Rightarrow> (Panic, diff)
              | Some s \<Rightarrow>
                  if s \<noteq> AZModeCrossAz then (Return None, diff)
                  else (case GetOk diff ''num_cache_nodes'' of (v, ok) \<Rightarrow>
                          if \<not> ok then (Return None, diff)
                          else (case assertInt v of
                                  None \<Rightarrow> (Panic, diff)
                                | Some n \<Rightarrow>
                                    if n \<noteq> 1 then (Return None, diff)
                                    else (Return (Some (ErrorsNew
                                      ''az_mode "cross-az" is not supported with num_cache_nodes = 1'')),
                                      diff)))))\<close>

definition CustomizeDiffValidateClusterNumCacheNodes ::
  "ResourceDiff \<Rightarrow> error option outcome \<times> ResourceDiff" where
  \<open>CustomizeDiffValidateClusterNumCacheNodes diff =
     (case GetOk diff ''engine'' of (v, ok) \<Rightarrow>
        if \<not> ok then (Return None, diff)
        else (case assertString v of
                None \<Rightarrow> (Panic, diff)
              | Some s \<Rightarrow>
                  if s = engineMemcached then (Return None, diff)
                  else (case GetOk diff ''num_cache_nodes'' of (v, ok) \<Rightarrow>
                          if \<not> ok then (Return None, diff)
                          else (case assertInt v of
                                  None \<Rightarrow> (Panic, diff)
                                | Some n \<Rightarrow>
                                    if n = 1 then (Return None, diff)
                                    else (Return (Some (ErrorsNew
                                      ''engine "redis" does not support num_cache_nodes > 1'')),
                                      diff)))))\<close>

definition CustomizeDiffClusterMemcachedNodeType ::
  "ResourceDiff \<Rightarrow> error option outcome \<times> ResourceDiff" where
  \<open>CustomizeDiffClusterMemcachedNodeType diff =
     (if Id_diff diff = [] \<or> \<not> HasChange diff ''node_type'' then (Return None, diff)
      else (case GetOk diff ''engine'' of (v, ok) \<Rightarrow>
              if \<not> ok then (Return None, diff)
              else (case assertString v of
                      None \<Rightarrow> (Panic, diff)
                    | Some s \<Rightarrow>
                        if s = engineRedis then (Return None, diff)
                        else (case ForceNew diff ''node_type'' of
                                (err, diff') \<Rightarrow> (Return err, diff')))))\<close>

definition CustomizeDiffValidateClusterMemcachedSnapshotIdentifier ::
  "ResourceDiff \<Rightarrow> error option outcome \<times> ResourceDiff" where
  \<open>CustomizeDiffValidateClusterMemcachedSnapshotIdentifier diff =
     (case GetOk diff ''engine'' of (v, ok) \<Rightarrow>
        if \<not> ok then (Return None, diff)
        else (case assertString v of
                None \<Rightarrow> (Panic, diff)
              | Some s \<Rightarrow>
                  if s = engineRedis then (Return None, diff)
                  else (case GetOk diff ''final_snapshot_identifier'' of (_, ok) \<Rightarrow>
                          if \<not> ok then (Return None, diff)
                          else (Return (Some (ErrorsNew
                            ''engine "memcached" does not support final_snapshot_identifier'')),
                            diff))))\<close>

definition CustomizeDiffValidateReplicationGroupAutomaticFailover ::
  "ResourceDiff \<Rightarrow> error option outcome \<times> ResourceDiff" where
  \<open>CustomizeDiffValidateReplicationGroupAutomaticFailover diff =
     (case assertBool (Get diff ''multi_az_enabled'') of
        None \<Rightarrow> (Panic, diff)
      | Some v \<Rightarrow>
          if \<not> v then (Return None, diff)
          else (case assertBool (Get diff ''automatic_failover_enabled'') of
                  None \<Rightarrow> (Panic, diff)
                | Some v \<Rightarrow>
                    if \<not> v
                    then (Return (Some (ErrorsNew
                      ''automatic_failover_enabled must be true if multi_az_enabled is true'')),
                      diff)
                    else (Return None, diff)))\<close>

section \<open>Version comparison\<close>

text \<open>
  \<^verbatim>\<open>Version.Compare\<close> and \<^verbatim>\<open>Version.LessThan\<close> of \<^verbatim>\<open>hashicorp/go-version\<close>.
  Versions that render to the same text compare equal (\<^verbatim>\<open>String()\<close> prints the
  segments, the prerelease text and the metadata, so these are the equal records);
  versions with the same segments are ordered by their prerelease text, a version
  without one being the greater; otherwise the segments decide, a missing segment
  counting as zero. The comparison of
  two non-empty prerelease texts is a function of the library of its own and is taken
  as the parameter \<open>comparePrereleases\<close>.
\<close>

fun allZero :: "int list \<Rightarrow> bool" where
  "allZero [] = True"
| "allZero (s # segs) = (if s \<noteq> 0 then False else allZero segs)"

fun compareSegments :: "int list \<Rightarrow> int list \<Rightarrow> int" where
  "compareSegments [] [] = 0"
| "compareSegments [] (r # rs) = (if \<not> allZero (r # rs) then - 1 else 0)"
| "compareSegments (l # ls) [] = (if \<not> allZero (l # ls) then 1 else 0)"
| "compareSegments (l # ls) (r # rs) =
     (if l = r then compareSegments ls rs else if l < r then - 1 else 1)"

definition Compare :: "(string \<Rightarrow> string \<Rightarrow> int) \<Rightarrow> Version \<Rightarrow> Version \<Rightarrow> int" where
  "Compare comparePrereleases v other =
     (if v = other then 0
      else if segments v = segments other
      then (if pre v = [] \<and> pre other = [] then 0
            else if pre v = [] then 1
            else if pre other = [] then - 1
            else comparePrereleases (pre v) (pre other))
      else compareSegments (segments v) (segments other))"

definition LessThan :: "(string \<Rightarrow> string \<Rightarrow> int) \<Rightarrow> Version \<Rightarrow> Version \<Rightarrow> bool" where
  "LessThan comparePrereleases v other = (Compare comparePrereleases v other < 0)"

text \<open>
  \<^verbatim>\<open>gversion.Must(gversion.NewVersion("1.6.12"))\<close>: three segments, no prerelease text,
  no metadata.
\<close>

definition minMemcachedTransitEncryptionVersion :: Version where
  "minMemcachedTransitEncryptionVersion = \<lparr>segments = [1, 6, 12], pre = [], metadata = []\<rparr>"

text \<open>
  \<^verbatim>\<open>normalizeEngineVersion\<close> is a function of the package that is declared in another
  file; it returns a version or an error and is taken as a parameter.
\<close>

definition CustomizeDiffValidateTransitEncryptionEnabled ::
  "(string \<Rightarrow> error + Version) \<Rightarrow> (string \<Rightarrow> string \<Rightarrow> int) \<Rightarrow> ResourceDiff
     \<Rightarrow> error option outcome \<times> ResourceDiff" where
  \<open>CustomizeDiffValidateTransitEncryptionEnabled normalizeEngineVersion comparePrereleases diff =
     (case GetOk diff ''transit_encryption_enabled'' of (v, ok) \<Rightarrow>
        if \<not> ok then (Return None, diff)
        else (case assertBool v of
                None \<Rightarrow> (Panic, diff)
              | Some b \<Rightarrow>
                  if \<not> b then (Return None, diff)
                  else (case assertString (Get diff ''engine'') of
                          None \<Rightarrow> (Panic, diff)
                        | Some engine \<Rightarrow>
                            if engine = engineRedis
                            then (Return (Some (ErrorsNew
                              ''aws_elasticache_cluster does not support transit encryption using the redis engine, use aws_elasticache_replication_group instead'')),
                              diff)
                            else (case GetOk diff ''engine_version'' of (engineVersion, ok) \<Rightarrow>
                                    if \<not> ok then (Return None, diff)
                                    else (case assertString engineVersion of
                                            None \<Rightarrow> (Panic, diff)
                                          | Some s \<Rightarrow>
                                              (case normalizeEngineVersion s of
                                                 Inl err \<Rightarrow> (Return (Some err), diff)
                                               | Inr version \<Rightarrow>
                                                   if LessThan comparePrereleases version
                                                        minMemcachedTransitEncryptionVersion
                                                   then (Return (Some (Errorf
                                                     ''Transit encryption is not supported for memcached version %v''
                                                     [ArgVersion version])), diff)
                                                   else (Return None, diff)))))))\<close>

section \<open>The destroy check of the OAM sink tests\<close>

text \<open>
  \<^verbatim>\<open>terraform.State\<close> as \<^verbatim>\<open>testAccCheckSinkDestroy\<close> of
  \<^verbatim>\<open>internal/service/oam/sink_test.go\<close> reads it. An initialised state has its
  root module, and every resource of it has its primary instance. \<^verbatim>\<open>Resources\<close> is
  a Go map; the list gives its entries in the order in which the \<^verbatim>\<open>range\<close> loop of
  the run at hand visits them.
\<close>

record InstanceState =
  ID :: string

record ResourceState =
  Type :: string
  Primary :: InstanceState

record ModuleState =
  Resources :: "(string \<times> ResourceState) list"

record State =
  rootModule :: ModuleState

definition RootModule :: "State \<Rightarrow> ModuleState" where
  "RootModule s = rootModule s"

text \<open>
  \<^verbatim>\<open>errors.As(err, &nfe)\<close> with \<^verbatim>\<open>nfe\<close> a \<^verbatim>\<open>*types.ResourceNotFoundException\<close>:
  some error of the chain of \<^verbatim>\<open>err\<close> is of that type.
\<close>

fun errorsAs_ResourceNotFoundException :: "error \<Rightarrow> bool" where
  "errorsAs_ResourceNotFoundException (ResourceNotFoundException m) = True"
| "errorsAs_ResourceNotFoundException (Wrapped m e) = errorsAs_ResourceNotFoundException e"
| "errorsAs_ResourceNotFoundException e = False"

text \<open>
  The loop of \<^verbatim>\<open>testAccCheckSinkDestroy\<close> over the resources that are left to visit.
  \<open>GetSink\<close> is the call \<^verbatim>\<open>conn.GetSink\<close> on an identifier, \<^verbatim>\<open>conn\<close> being the
  client of the configured provider; the loop calls it at most once.
  \<open>createError\<close> is \<^verbatim>\<open>create.Error\<close> applied to
  \<^verbatim>\<open>names.ObservabilityAccessManager\<close>, \<^verbatim>\<open>create.ErrActionCheckingDestroyed\<close> and
  \<^verbatim>\<open>tfoam.ResNameSink\<close>, which are declared in other packages of the provider; its
  remaining arguments are the id and the cause.
\<close>

fun checkSinkDestroyLoop ::
  "(string \<Rightarrow> error + 'out) \<Rightarrow> (string \<Rightarrow> error \<Rightarrow> error)
     \<Rightarrow> (string \<times> ResourceState) list \<Rightarrow> error option" where
  "checkSinkDestroyLoop GetSink createError [] = None"
| "checkSinkDestroyLoop GetSink createError ((name, rs) # rest) =
     (if Type rs \<noteq> ''aws_oam_sink'' then checkSinkDestroyLoop GetSink createError rest
      else (case GetSink (ID (Primary rs)) of
              Inl err \<Rightarrow> (if errorsAs_ResourceNotFoundException err then None else Some err)
            | Inr out \<Rightarrow> Some (createError (ID (Primary rs)) (ErrorsNew ''not destroyed''))))"

definition testAccCheckSinkDestroy ::
  "(string \<Rightarrow> error + 'out) \<Rightarrow> (string \<Rightarrow> error \<Rightarrow> error) \<Rightarrow> State \<Rightarrow> error option" where
  "testAccCheckSinkDestroy GetSink createError s =
     checkSinkDestroyLoop GetSink createError (Resources (RootModule s))"

section \<open>Notions used to state the properties\<close>

text \<open>
  The value that the diff plans for a key: \<open>None\<close> when the key is not in the schema,
  not set or not yet known.
\<close>

definition planned :: "ResourceDiff \<Rightarrow> string \<Rightarrow> val option" where
  "planned diff key = (case attrs diff key of None \<Rightarrow> None | Some f \<Rightarrow> fnew f)"

text \<open>
  The schema declares the key with type \<open>T\<close>, and the value the diff plans for it, if
  any, has that dynamic type.
\<close>

definition schemaSupplies :: "ResourceDiff \<Rightarrow> string \<Rightarrow> ValueType \<Rightarrow> bool" where
  "schemaSupplies diff key T =
     (case attrs diff key of
        None \<Rightarrow> False
      | Some f \<Rightarrow> ftype f = T \<and> (case fnew f of None \<Rightarrow> True | Some v \<Rightarrow> typeOf v = Some T))"

text \<open>The field types that the functions of diff.go rely on.\<close>

definition declaredFieldTypes :: "ResourceDiff \<Rightarrow> bool" where
  "declaredFieldTypes diff =
     (schemaSupplies diff ''az_mode'' TypeString \<and>
      schemaSupplies diff ''engine'' TypeString \<and>
      schemaSupplies diff ''engine_version'' TypeString \<and>
      schemaSupplies diff ''final_snapshot_identifier'' TypeString \<and>
      schemaSupplies diff ''num_cache_nodes'' TypeInt \<and>
      schemaSupplies diff ''multi_az_enabled'' TypeBool \<and>
      schemaSupplies diff ''automatic_failover_enabled'' TypeBool \<and>
      schemaSupplies diff ''transit_encryption_enabled'' TypeBool)"

section \<open>Example inputs\<close>

definition field :: "ValueType \<Rightarrow> val option \<Rightarrow> val option \<Rightarrow> Field" where
  "field T old new = \<lparr>ftype = T, fForceNew = False, fold = old, fnew = new\<rparr>"

definition diffOf :: "string \<Rightarrow> (string \<times> Field) list \<Rightarrow> ResourceDiff" where
  "diffOf i kvs = \<lparr>resourceId = i, attrs = map_of kvs, forcedNewKeys = {}\<rparr>"

text \<open>
  The diff of an existing cluster whose node type changes, with multi-AZ and transit
  encryption switched on and automatic failover left unset.
\<close>

definition exampleCluster :: "string \<Rightarrow> int \<Rightarrow> string \<Rightarrow> ResourceDiff" where
  "exampleCluster engine nodes version =
     diffOf ''cluster-1''
       [(''az_mode'', field TypeString None (Some (VString ''cross-az''))),
        (''engine'', field TypeString (Some (VString engine)) (Some (VString engine))),
        (''engine_version'', field TypeString None (Some (VString version))),
        (''final_snapshot_identifier'', field TypeString None (Some (VString ''final''))),
        (''num_cache_nodes'', field TypeInt None (Some (VInt nodes))),
        (''multi_az_enabled'', field TypeBool None (Some (VBool True))),
        (''automatic_failover_enabled'', field TypeBool None None),
        (''transit_encryption_enabled'', field TypeBool None (Some (VBool True))),
        (''node_type'', field TypeString (Some (VString ''cache.t3.micro''))
                          (Some (VString ''cache.t3.small'')))]"

text \<open>A version parser that knows two version texts.\<close>

definition exampleNormalize :: "string \<Rightarrow> error + Version" where
  "exampleNormalize s =
     (if s = ''1.6.6'' then Inr \<lparr>segments = [1, 6, 6], pre = [], metadata = []\<rparr>
      else if s = ''1.6.12'' then Inr \<lparr>segments = [1, 6, 12], pre = [], metadata = []\<rparr>
      else Inl (OtherError ''Malformed version''))"

definition examplePrereleases :: "string \<Rightarrow> string \<Rightarrow> int" where
  "examplePrereleases a b = 0"

text \<open>
  A state with a route table and two sinks, and a service in which the first sink is
  gone and the second one is still there.
\<close>

definition exampleResources :: "(string \<times> ResourceState) list" where
  "exampleResources =
     [(''aws_route_table.test'', \<lparr>Type = ''aws_route_table'', Primary = \<lparr>ID = ''rtb-1''\<rparr>\<rparr>),
      (''aws_oam_sink.test'', \<lparr>Type = ''aws_oam_sink'', Primary = \<lparr>ID = ''sink-1''\<rparr>\<rparr>),
      (''aws_oam_sink.other'', \<lparr>Type = ''aws_oam_sink'', Primary = \<lparr>ID = ''sink-2''\<rparr>\<rparr>)]"

definition exampleGetSink :: "string \<Rightarrow> error + unit" where
  "exampleGetSink i =
     (if i = ''sink-1''
      then Inl (Wrapped ''operation error ObservabilityAccessManager: GetSink''
                  (ResourceNotFoundException ''sink not found''))
      else Inr ())"

definition exampleCreateError :: "string \<Rightarrow> error \<Rightarrow> error" where
  "exampleCreateError i cause = Wrapped (''checking destroyed Sink '' @ i) cause"

section \<open>Reading a declared field\<close>

lemma GetOk_supplied:
  "schemaSupplies d k T \<Longrightarrow>
   GetOk d k = (case planned d k of None \<Rightarrow> (TypeZero T, False) | Some v \<Rightarrow> (v, v \<noteq> TypeZero T))"
  by (auto simp: schemaSupplies_def GetOk_def Get_def planned_def split: option.splits)

lemma Get_supplied:
  "schemaSupplies d k T \<Longrightarrow>
   Get d k = (case planned d k of None \<Rightarrow> TypeZero T | Some v \<Rightarrow> v)"
  by (auto simp: schemaSupplies_def Get_def planned_def split: option.splits)

lemma planned_typed:
  "schemaSupplies d k T \<Longrightarrow> planned d k = Some v \<Longrightarrow> typeOf v = Some T"
  by (auto simp: schemaSupplies_def planned_def split: option.splits)

lemma typeOf_String: "typeOf v = Some TypeString \<Longrightarrow> \<exists>s. v = VString s"
  by (cases v) auto

lemma typeOf_Int: "typeOf v = Some TypeInt \<Longrightarrow> \<exists>n. v = VInt n"
  by (cases v) auto

lemma typeOf_Bool: "typeOf v = Some TypeBool \<Longrightarrow> \<exists>b. v = VBool b"
  by (cases v) auto

lemma planned_String:
  "schemaSupplies d k TypeString \<Longrightarrow> planned d k = None \<or> (\<exists>s. planned d k = Some (VString s))"
  by (cases "planned d k") (auto dest: planned_typed typeOf_String)

lemma planned_Int:
  "schemaSupplies d k TypeInt \<Longrightarrow> planned d k = None \<or> (\<exists>n. planned d k = Some (VInt n))"
  by (cases "planned d k") (auto dest: planned_typed typeOf_Int)

lemma planned_Bool:
  "schemaSupplies d k TypeBool \<Longrightarrow> planned d k = None \<or> (\<exists>b. planned d k = Some (VBool b))"
  by (cases "planned d k") (auto dest: planned_typed typeOf_Bool)

lemma exampleCluster_supplies:
  "schemaSupplies (exampleCluster e n v) ''az_mode'' TypeString"
  "schemaSupplies (exampleCluster e n v) ''engine'' TypeString"
  "schemaSupplies (exampleCluster e n v) ''engine_version'' TypeString"
  "schemaSupplies (exampleCluster e n v) ''final_snapshot_identifier'' TypeString"
  "schemaSupplies (exampleCluster e n v) ''num_cache_nodes'' TypeInt"
  "schemaSupplies (exampleCluster e n v) ''multi_az_enabled'' TypeBool"
  "schemaSupplies (exampleCluster e n v) ''automatic_failover_enabled'' TypeBool"
  "schemaSupplies (exampleCluster e n v) ''transit_encryption_enabled'' TypeBool"
  by (simp_all add: schemaSupplies_def exampleCluster_def diffOf_def field_def)

lemma exampleCluster_planned:
  "planned (exampleCluster e n v) ''az_mode'' = Some (VString ''cross-az'')"
  "planned (exampleCluster e n v) ''engine'' = Some (VString e)"
  "planned (exampleCluster e n v) ''engine_version'' = Some (VString v)"
  "planned (exampleCluster e n v) ''final_snapshot_identifier'' = Some (VString ''final'')"
  "planned (exampleCluster e n v) ''num_cache_nodes'' = Some (VInt n)"
  "planned (exampleCluster e n v) ''multi_az_enabled'' = Some (VBool True)"
  "planned (exampleCluster e n v) ''automatic_failover_enabled'' = None"
  "planned (exampleCluster e n v) ''transit_encryption_enabled'' = Some (VBool True)"
  by (simp_all add: planned_def exampleCluster_def diffOf_def field_def)

section \<open>The validators of the cluster resource\<close>

text \<open>
  C1: for a diff whose schema supplies \<open>engine\<close> as a string and \<open>num_cache_nodes\<close> as
  an int, \<^verbatim>\<open>CustomizeDiffValidateClusterNumCacheNodes\<close> returns its error exactly when
  \<open>engine\<close> is set (planned, not empty) to a value other than "memcached" and
  \<open>num_cache_nodes\<close> is set (planned, not zero) to a value other than 1; in every other
  case it returns nil. The engine need not be "redis" for the error.
\<close>

theorem NumCacheNodes_error_iff:
  assumes "schemaSupplies d ''engine'' TypeString"
    and "schemaSupplies d ''num_cache_nodes'' TypeInt"
  shows \<open>fst (CustomizeDiffValidateClusterNumCacheNodes d) =
     (if planned d ''engine'' \<notin> {None, Some (VString []), Some (VString ''memcached'')}
         \<and> planned d ''num_cache_nodes'' \<notin> {None, Some (VInt 0), Some (VInt 1)}
      then Return (Some (ErrorsNew ''engine "redis" does not support num_cache_nodes > 1''))
      else Return None)\<close>
  using planned_String[OF assms(1)] planned_Int[OF assms(2)]
  by (auto simp: CustomizeDiffValidateClusterNumCacheNodes_def GetOk_supplied[OF assms(1)]
      GetOk_supplied[OF assms(2)] engineMemcached_def)

theorem NumCacheNodes_error_iff_witness:
  \<open>schemaSupplies (exampleCluster ''valkey'' 2 ''7.2'') ''engine'' TypeString \<and>
   schemaSupplies (exampleCluster ''valkey'' 2 ''7.2'') ''num_cache_nodes'' TypeInt \<and>
   fst (CustomizeDiffValidateClusterNumCacheNodes (exampleCluster ''valkey'' 2 ''7.2'')) =
     Return (Some (ErrorsNew ''engine "redis" does not support num_cache_nodes > 1''))\<close>
  using NumCacheNodes_error_iff[OF exampleCluster_supplies(2) exampleCluster_supplies(5),
      of "''valkey''" 2 "''7.2''"]
  by (simp add: exampleCluster_supplies exampleCluster_planned)

text \<open>
  C2: for a diff whose schema supplies \<open>az_mode\<close> as a string and \<open>num_cache_nodes\<close>
  as an int, \<^verbatim>\<open>CustomizeDiffValidateClusterAZMode\<close> returns its error exactly when
  \<open>az_mode\<close> is set to "cross-az" and \<open>num_cache_nodes\<close> is set and equal to 1; in
  every other case it returns nil.
\<close>

theorem AZMode_error_iff:
  assumes "schemaSupplies d ''az_mode'' TypeString"
    and "schemaSupplies d ''num_cache_nodes'' TypeInt"
  shows \<open>fst (CustomizeDiffValidateClusterAZMode d) =
     (if planned d ''az_mode'' = Some (VString ''cross-az'')
         \<and> planned d ''num_cache_nodes'' = Some (VInt 1)
      then Return (Some (ErrorsNew ''az_mode "cross-az" is not supported with num_cache_nodes = 1''))
      else Return None)\<close>
  using planned_String[OF assms(1)] planned_Int[OF assms(2)]
  by (auto simp: CustomizeDiffValidateClusterAZMode_def GetOk_supplied[OF assms(1)]
      GetOk_supplied[OF assms(2)] AZModeCrossAz_def)

theorem AZMode_error_iff_witness:
  \<open>schemaSupplies (exampleCluster ''memcached'' 1 ''1.6.6'') ''az_mode'' TypeString \<and>
   schemaSupplies (exampleCluster ''memcached'' 1 ''1.6.6'') ''num_cache_nodes'' TypeInt \<and>
   fst (CustomizeDiffValidateClusterAZMode (exampleCluster ''memcached'' 1 ''1.6.6'')) =
     Return (Some (ErrorsNew ''az_mode "cross-az" is not supported with num_cache_nodes = 1''))\<close>
  using AZMode_error_iff[OF exampleCluster_supplies(1) exampleCluster_supplies(5),
      of "''memcached''" 1 "''1.6.6''"]
  by (simp add: exampleCluster_supplies exampleCluster_planned)

text \<open>
  C5: for a diff whose schema supplies \<open>engine\<close> as a string,
  \<^verbatim>\<open>CustomizeDiffClusterMemcachedNodeType\<close> calls \<^verbatim>\<open>diff.ForceNew("node_type")\<close> and
  returns its result exactly when the id of the diff is not empty, \<open>node_type\<close> has a
  change and \<open>engine\<close> is set (planned, not empty) to a value other than "redis"; in
  every other case it returns nil and leaves the diff as it is.
\<close>

theorem MemcachedNodeType_ForceNew_iff:
  assumes "schemaSupplies d ''engine'' TypeString"
  shows \<open>CustomizeDiffClusterMemcachedNodeType d =
     (if Id_diff d \<noteq> [] \<and> HasChange d ''node_type''
         \<and> planned d ''engine'' \<notin> {None, Some (VString []), Some (VString ''redis'')}
      then (Return (fst (ForceNew d ''node_type'')), snd (ForceNew d ''node_type''))
      else (Return None, d))\<close>
  using planned_String[OF assms]
  by (auto simp: CustomizeDiffClusterMemcachedNodeType_def GetOk_supplied[OF assms] engineRedis_def
      split: prod.splits)

theorem MemcachedNodeType_ForceNew_iff_witness:
  \<open>schemaSupplies (exampleCluster ''memcached'' 2 ''1.6.6'') ''engine'' TypeString \<and>
   CustomizeDiffClusterMemcachedNodeType (exampleCluster ''memcached'' 2 ''1.6.6'') =
     (Return None,
      (exampleCluster ''memcached'' 2 ''1.6.6'')
        \<lparr>attrs := (attrs (exampleCluster ''memcached'' 2 ''1.6.6''))
           (''node_type'' \<mapsto> (field TypeString (Some (VString ''cache.t3.micro''))
                                 (Some (VString ''cache.t3.small'')))\<lparr>fForceNew := True\<rparr>),
         forcedNewKeys := {''node_type''}\<rparr>)\<close>
  using MemcachedNodeType_ForceNew_iff[OF exampleCluster_supplies(2), of "''memcached''" 2 "''1.6.6''"]
  by (simp add: exampleCluster_supplies exampleCluster_planned)
     (simp add: exampleCluster_def diffOf_def field_def Id_diff_def HasChange_def Get_def
        GetOld_def ForceNew_def)

text \<open>
  C6: for a diff whose schema supplies \<open>engine\<close> and \<open>final_snapshot_identifier\<close> as
  strings, \<^verbatim>\<open>CustomizeDiffValidateClusterMemcachedSnapshotIdentifier\<close> returns its
  error exactly when \<open>engine\<close> is set (planned, not empty) to a value other than
  "redis" and \<open>final_snapshot_identifier\<close> is set; with \<open>engine\<close> unset it returns nil
  whatever \<open>final_snapshot_identifier\<close> is.
\<close>

theorem MemcachedSnapshotIdentifier_error_iff:
  assumes "schemaSupplies d ''engine'' TypeString"
    and "schemaSupplies d ''final_snapshot_identifier'' TypeString"
  shows \<open>fst (CustomizeDiffValidateClusterMemcachedSnapshotIdentifier d) =
     (if planned d ''engine'' \<notin> {None, Some (VString []), Some (VString ''redis'')}
         \<and> planned d ''final_snapshot_identifier'' \<notin> {None, Some (VString [])}
      then Return (Some (ErrorsNew ''engine "memcached" does not support final_snapshot_identifier''))
      else Return None)\<close>
  using planned_String[OF assms(1)] planned_String[OF assms(2)]
  by (auto simp: CustomizeDiffValidateClusterMemcachedSnapshotIdentifier_def
      GetOk_supplied[OF assms(1)] GetOk_supplied[OF assms(2)] engineRedis_def)

theorem MemcachedSnapshotIdentifier_error_iff_witness:
  \<open>schemaSupplies (exampleCluster ''memcached'' 2 ''1.6.6'') ''engine'' TypeString \<and>
   schemaSupplies (exampleCluster ''memcached'' 2 ''1.6.6'') ''final_snapshot_identifier'' TypeString \<and>
   fst (CustomizeDiffValidateClusterMemcachedSnapshotIdentifier
          (exampleCluster ''memcached'' 2 ''1.6.6'')) =
     Return (Some (ErrorsNew ''engine "memcached" does not support final_snapshot_identifier''))\<close>
  using MemcachedSnapshotIdentifier_error_iff[OF exampleCluster_supplies(2)
      exampleCluster_supplies(4), of "''memcached''" 2 "''1.6.6''"]
  by (simp add: exampleCluster_supplies exampleCluster_planned)

section \<open>The validator of the replication group\<close>

text \<open>
  C7: for a diff whose schema supplies \<open>multi_az_enabled\<close> as a bool,
  \<^verbatim>\<open>CustomizeDiffValidateReplicationGroupAutomaticFailover\<close> returns nil whenever
  \<open>multi_az_enabled\<close> is false, whatever \<open>automatic_failover_enabled\<close> is; and where
  the schema supplies \<open>automatic_failover_enabled\<close> as a bool too, it returns its error
  exactly when \<open>multi_az_enabled\<close> is true and \<open>automatic_failover_enabled\<close> is false.
\<close>

theorem AutomaticFailover_error_iff:
  assumes "schemaSupplies d ''multi_az_enabled'' TypeBool"
  shows \<open>(planned d ''multi_az_enabled'' \<noteq> Some (VBool True) \<longrightarrow>
            fst (CustomizeDiffValidateReplicationGroupAutomaticFailover d) = Return None) \<and>
         (schemaSupplies d ''automatic_failover_enabled'' TypeBool \<longrightarrow>
            fst (CustomizeDiffValidateReplicationGroupAutomaticFailover d) =
              (if planned d ''multi_az_enabled'' = Some (VBool True)
                  \<and> planned d ''automatic_failover_enabled'' \<noteq> Some (VBool True)
               then Return (Some (ErrorsNew
                 ''automatic_failover_enabled must be true if multi_az_enabled is true''))
               else Return None))\<close>
proof (intro conjI impI)
  assume "planned d ''multi_az_enabled'' \<noteq> Some (VBool True)"
  then show "fst (CustomizeDiffValidateReplicationGroupAutomaticFailover d) = Return None"
    using planned_Bool[OF assms]
    by (auto simp: CustomizeDiffValidateReplicationGroupAutomaticFailover_def
        Get_supplied[OF assms])
next
  assume af: "schemaSupplies d ''automatic_failover_enabled'' TypeBool"
  show \<open>fst (CustomizeDiffValidateReplicationGroupAutomaticFailover d) =
              (if planned d ''multi_az_enabled'' = Some (VBool True)
                  \<and> planned d ''automatic_failover_enabled'' \<noteq> Some (VBool True)
               then Return (Some (ErrorsNew
                 ''automatic_failover_enabled must be true if multi_az_enabled is true''))
               else Return None)\<close>
    using planned_Bool[OF assms] planned_Bool[OF af]
    by (auto simp: CustomizeDiffValidateReplicationGroupAutomaticFailover_def
        Get_supplied[OF assms] Get_supplied[OF af])
qed

theorem AutomaticFailover_error_iff_witness:
  \<open>schemaSupplies (exampleCluster ''redis'' 1 ''7.0'') ''multi_az_enabled'' TypeBool \<and>
   schemaSupplies (exampleCluster ''redis'' 1 ''7.0'') ''automatic_failover_enabled'' TypeBool \<and>
   fst (CustomizeDiffValidateReplicationGroupAutomaticFailover (exampleCluster ''redis'' 1 ''7.0'')) =
     Return (Some (ErrorsNew
       ''automatic_failover_enabled must be true if multi_az_enabled is true''))\<close>
  using AutomaticFailover_error_iff[OF exampleCluster_supplies(6), of "''redis''" 1 "''7.0''"]
  by (simp add: exampleCluster_supplies exampleCluster_planned)

section \<open>Transit encryption\<close>

lemma compareSegments_antisym: "compareSegments ys xs = - compareSegments xs ys"
  by (induction xs ys rule: compareSegments.induct) auto

lemma LessThan_min_self:
  "\<not> LessThan cp minMemcachedTransitEncryptionVersion minMemcachedTransitEncryptionVersion"
  by (simp add: LessThan_def Compare_def)

lemma LessThan_min_asym:
  "LessThan cp minMemcachedTransitEncryptionVersion v \<Longrightarrow>
   \<not> LessThan cp v minMemcachedTransitEncryptionVersion"
  using compareSegments_antisym[of "segments v" "segments minMemcachedTransitEncryptionVersion"]
  by (auto simp: LessThan_def Compare_def minMemcachedTransitEncryptionVersion_def
      split: if_splits)

lemma LessThan_min_three:
  "LessThan cp \<lparr>segments = [a, b, c], pre = p, metadata = m\<rparr> minMemcachedTransitEncryptionVersion
   \<longleftrightarrow> a < 1 \<or> (a = 1 \<and> (b < 6 \<or> (b = 6 \<and> (c < 12 \<or> (c = 12 \<and> p \<noteq> [])))))"
  by (auto simp: LessThan_def Compare_def minMemcachedTransitEncryptionVersion_def)

lemma TransitEncryption_off:
  assumes "schemaSupplies d ''transit_encryption_enabled'' TypeBool"
    and "planned d ''transit_encryption_enabled'' \<noteq> Some (VBool True)"
  shows "fst (CustomizeDiffValidateTransitEncryptionEnabled nv cp d) = Return None"
  using planned_Bool[OF assms(1)] assms(2)
  by (auto simp: CustomizeDiffValidateTransitEncryptionEnabled_def GetOk_supplied[OF assms(1)])

lemma TransitEncryption_on:
  assumes "schemaSupplies d ''transit_encryption_enabled'' TypeBool"
    and "schemaSupplies d ''engine'' TypeString"
    and "schemaSupplies d ''engine_version'' TypeString"
    and "planned d ''transit_encryption_enabled'' = Some (VBool True)"
  shows \<open>fst (CustomizeDiffValidateTransitEncryptionEnabled nv cp d) =
     (if planned d ''engine'' = Some (VString ''redis'')
      then Return (Some (ErrorsNew
        ''aws_elasticache_cluster does not support transit encryption using the redis engine, use aws_elasticache_replication_group instead''))
      else (case planned d ''engine_version'' of
              None \<Rightarrow> Return None
            | Some ev \<Rightarrow>
                (case ev of
                   VString s \<Rightarrow>
                     if s = [] then Return None
                     else (case nv s of
                             Inl err \<Rightarrow> Return (Some err)
                           | Inr version \<Rightarrow>
                               if LessThan cp version minMemcachedTransitEncryptionVersion
                               then Return (Some (Errorf
                                 ''Transit encryption is not supported for memcached version %v''
                                 [ArgVersion version]))
                               else Return None)
                 | _ \<Rightarrow> Return None)))\<close>
  using planned_String[OF assms(2)] planned_String[OF assms(3)] assms(4)
  by (auto simp: CustomizeDiffValidateTransitEncryptionEnabled_def GetOk_supplied[OF assms(1)]
      GetOk_supplied[OF assms(3)] Get_supplied[OF assms(2)] engineRedis_def split: sum.splits)

lemma exampleNormalize_not_redis_error:
  \<open>\<forall>s. exampleNormalize s \<noteq> Inl (ErrorsNew
        ''aws_elasticache_cluster does not support transit encryption using the redis engine, use aws_elasticache_replication_group instead'')\<close>
  by (simp add: exampleNormalize_def)

text \<open>
  C3: for a diff whose schema supplies \<open>transit_encryption_enabled\<close> as a bool and
  \<open>engine\<close> and \<open>engine_version\<close> as strings,
  \<^verbatim>\<open>CustomizeDiffValidateTransitEncryptionEnabled\<close> returns nil when
  \<open>transit_encryption_enabled\<close> is unset or false. When it is set and true, the function
  returns the error that points to \<^verbatim>\<open>aws_elasticache_replication_group\<close> when \<open>engine\<close>
  is "redis", and only then, \<^verbatim>\<open>normalizeEngineVersion\<close> being unable to return that
  error value (\<^verbatim>\<open>errors.New\<close> allocates it anew in the call); and when \<open>engine\<close> is
  not "redis" and \<open>engine_version\<close> is unset, it returns nil.
\<close>

theorem TransitEncryption_engine_check:
  assumes "schemaSupplies d ''transit_encryption_enabled'' TypeBool"
    and "schemaSupplies d ''engine'' TypeString"
    and "schemaSupplies d ''engine_version'' TypeString"
  shows \<open>(planned d ''transit_encryption_enabled'' \<noteq> Some (VBool True) \<longrightarrow>
            fst (CustomizeDiffValidateTransitEncryptionEnabled nv cp d) = Return None) \<and>
         (planned d ''transit_encryption_enabled'' = Some (VBool True) \<longrightarrow>
            (planned d ''engine'' = Some (VString ''redis'') \<longrightarrow>
               fst (CustomizeDiffValidateTransitEncryptionEnabled nv cp d) =
                 Return (Some (ErrorsNew
        ''aws_elasticache_cluster does not support transit encryption using the redis engine, use aws_elasticache_replication_group instead''))) \<and>
            ((\<forall>s. nv s \<noteq> Inl (ErrorsNew
        ''aws_elasticache_cluster does not support transit encryption using the redis engine, use aws_elasticache_replication_group instead'')) \<longrightarrow>
               fst (CustomizeDiffValidateTransitEncryptionEnabled nv cp d) =
                 Return (Some (ErrorsNew
        ''aws_elasticache_cluster does not support transit encryption using the redis engine, use aws_elasticache_replication_group instead'')) \<longrightarrow>
               planned d ''engine'' = Some (VString ''redis'')) \<and>
            (planned d ''engine'' \<noteq> Some (VString ''redis'') \<and>
             planned d ''engine_version'' \<in> {None, Some (VString [])} \<longrightarrow>
               fst (CustomizeDiffValidateTransitEncryptionEnabled nv cp d) = Return None))\<close>
proof (intro conjI impI)
  assume "planned d ''transit_encryption_enabled'' \<noteq> Some (VBool True)"
  then show "fst (CustomizeDiffValidateTransitEncryptionEnabled nv cp d) = Return None"
    by (rule TransitEncryption_off[OF assms(1)])
next
  assume on: "planned d ''transit_encryption_enabled'' = Some (VBool True)"
    and "planned d ''engine'' = Some (VString ''redis'')"
  then show \<open>fst (CustomizeDiffValidateTransitEncryptionEnabled nv cp d) =
                 Return (Some (ErrorsNew
        ''aws_elasticache_cluster does not support transit encryption using the redis engine, use aws_elasticache_replication_group instead''))\<close>
    by (simp add: TransitEncryption_on[OF assms on])
next
  assume on: "planned d ''transit_encryption_enabled'' = Some (VBool True)"
    and nv: \<open>\<forall>s. nv s \<noteq> Inl (ErrorsNew
        ''aws_elasticache_cluster does not support transit encryption using the redis engine, use aws_elasticache_replication_group instead'')\<close>
    and r: \<open>fst (CustomizeDiffValidateTransitEncryptionEnabled nv cp d) =
                 Return (Some (ErrorsNew
        ''aws_elasticache_cluster does not support transit encryption using the redis engine, use aws_elasticache_replication_group instead''))\<close>
  show "planned d ''engine'' = Some (VString ''redis'')"
    using r nv unfolding TransitEncryption_on[OF assms on]
    by (auto split: if_splits option.splits val.splits sum.splits)
next
  assume on: "planned d ''transit_encryption_enabled'' = Some (VBool True)"
    and "planned d ''engine'' \<noteq> Some (VString ''redis'') \<and>
             planned d ''engine_version'' \<in> {None, Some (VString [])}"
  then show "fst (CustomizeDiffValidateTransitEncryptionEnabled nv cp d) = Return None"
    by (auto simp: TransitEncryption_on[OF assms on])
qed

theorem TransitEncryption_engine_check_witness:
  \<open>schemaSupplies (exampleCluster ''redis'' 1 ''7.0'') ''transit_encryption_enabled'' TypeBool \<and>
   schemaSupplies (exampleCluster ''redis'' 1 ''7.0'') ''engine'' TypeString \<and>
   schemaSupplies (exampleCluster ''redis'' 1 ''7.0'') ''engine_version'' TypeString \<and>
   planned (exampleCluster ''redis'' 1 ''7.0'') ''transit_encryption_enabled'' = Some (VBool True) \<and>
   planned (exampleCluster ''redis'' 1 ''7.0'') ''engine'' = Some (VString ''redis'') \<and>
   (\<forall>s. exampleNormalize s \<noteq> Inl (ErrorsNew
        ''aws_elasticache_cluster does not support transit encryption using the redis engine, use aws_elasticache_replication_group instead'')) \<and>
   fst (CustomizeDiffValidateTransitEncryptionEnabled exampleNormalize examplePrereleases
          (exampleCluster ''redis'' 1 ''7.0'')) =
     Return (Some (ErrorsNew
        ''aws_elasticache_cluster does not support transit encryption using the redis engine, use aws_elasticache_replication_group instead''))\<close>
  using TransitEncryption_engine_check[OF exampleCluster_supplies(8) exampleCluster_supplies(2)
      exampleCluster_supplies(3), of "''redis''" 1 "''7.0''" exampleNormalize examplePrereleases]
    exampleNormalize_not_redis_error
  by (simp add: exampleCluster_supplies exampleCluster_planned)

text \<open>
  C4: for a diff whose schema supplies the three fields as above, with
  \<open>transit_encryption_enabled\<close> set to true, \<open>engine\<close> not "redis" and \<open>engine_version\<close>
  set to a text \<open>s\<close>: if \<^verbatim>\<open>normalizeEngineVersion\<close> fails on \<open>s\<close>, its error is
  returned unchanged; if it yields a version, the function returns an error exactly when
  that version is less than 1.6.12 in the order of \<^verbatim>\<open>Version.LessThan\<close>, and nil for
  1.6.12 itself and for every version that 1.6.12 is less than. For a version of three
  segments, being less than 1.6.12 is spelled out on the segments.
\<close>

theorem TransitEncryption_version_check:
  assumes "schemaSupplies d ''transit_encryption_enabled'' TypeBool"
    and "schemaSupplies d ''engine'' TypeString"
    and "schemaSupplies d ''engine_version'' TypeString"
    and "planned d ''transit_encryption_enabled'' = Some (VBool True)"
    and "planned d ''engine'' \<noteq> Some (VString ''redis'')"
    and "planned d ''engine_version'' = Some (VString s)" and "s \<noteq> []"
  shows \<open>(\<forall>err. nv s = Inl err \<longrightarrow>
            fst (CustomizeDiffValidateTransitEncryptionEnabled nv cp d) = Return (Some err)) \<and>
         (\<forall>version. nv s = Inr version \<longrightarrow>
            ((\<exists>err. fst (CustomizeDiffValidateTransitEncryptionEnabled nv cp d) = Return (Some err))
               \<longleftrightarrow> LessThan cp version minMemcachedTransitEncryptionVersion) \<and>
            (LessThan cp version minMemcachedTransitEncryptionVersion \<longrightarrow>
               fst (CustomizeDiffValidateTransitEncryptionEnabled nv cp d) =
                 Return (Some (Errorf
                   ''Transit encryption is not supported for memcached version %v''
                   [ArgVersion version]))) \<and>
            (\<not> LessThan cp version minMemcachedTransitEncryptionVersion \<longrightarrow>
               fst (CustomizeDiffValidateTransitEncryptionEnabled nv cp d) = Return None) \<and>
            (version = minMemcachedTransitEncryptionVersion
               \<or> LessThan cp minMemcachedTransitEncryptionVersion version \<longrightarrow>
               fst (CustomizeDiffValidateTransitEncryptionEnabled nv cp d) = Return None) \<and>
            (\<forall>a b c p m. version = \<lparr>segments = [a, b, c], pre = p, metadata = m\<rparr> \<longrightarrow>
               ((\<exists>err. fst (CustomizeDiffValidateTransitEncryptionEnabled nv cp d)
                          = Return (Some err))
                \<longleftrightarrow> a < 1 \<or> (a = 1 \<and> (b < 6 \<or> (b = 6 \<and> (c < 12 \<or> (c = 12 \<and> p \<noteq> []))))))))\<close>
proof -
  have r: \<open>fst (CustomizeDiffValidateTransitEncryptionEnabled nv cp d) =
     (case nv s of
        Inl err \<Rightarrow> Return (Some err)
      | Inr version \<Rightarrow>
          if LessThan cp version minMemcachedTransitEncryptionVersion
          then Return (Some (Errorf
                 ''Transit encryption is not supported for memcached version %v''
                 [ArgVersion version]))
          else Return None)\<close>
    using assms(5-7) by (simp add: TransitEncryption_on[OF assms(1-4)])
  show ?thesis
    unfolding r
    using LessThan_min_self[of cp] LessThan_min_asym[of cp]
    by (auto simp: LessThan_min_three)
qed

theorem TransitEncryption_version_check_witness:
  \<open>schemaSupplies (exampleCluster ''memcached'' 2 ''1.6.6'') ''transit_encryption_enabled'' TypeBool \<and>
   schemaSupplies (exampleCluster ''memcached'' 2 ''1.6.6'') ''engine'' TypeString \<and>
   schemaSupplies (exampleCluster ''memcached'' 2 ''1.6.6'') ''engine_version'' TypeString \<and>
   planned (exampleCluster ''memcached'' 2 ''1.6.6'') ''transit_encryption_enabled''
     = Some (VBool True) \<and>
   planned (exampleCluster ''memcached'' 2 ''1.6.6'') ''engine'' \<noteq> Some (VString ''redis'') \<and>
   planned (exampleCluster ''memcached'' 2 ''1.6.6'') ''engine_version'' = Some (VString ''1.6.6'') \<and>
   exampleNormalize ''1.6.6'' = Inr \<lparr>segments = [1, 6, 6], pre = [], metadata = []\<rparr> \<and>
   LessThan examplePrereleases \<lparr>segments = [1, 6, 6], pre = [], metadata = []\<rparr>
     minMemcachedTransitEncryptionVersion \<and>
   fst (CustomizeDiffValidateTransitEncryptionEnabled exampleNormalize examplePrereleases
          (exampleCluster ''memcached'' 2 ''1.6.6'')) =
     Return (Some (Errorf ''Transit encryption is not supported for memcached version %v''
       [ArgVersion \<lparr>segments = [1, 6, 6], pre = [], metadata = []\<rparr>]))\<close>
  using TransitEncryption_version_check[OF exampleCluster_supplies(8) exampleCluster_supplies(2)
      exampleCluster_supplies(3) exampleCluster_planned(8) _ exampleCluster_planned(3),
      of "''memcached''" 2 "''1.6.6''" exampleNormalize examplePrereleases]
  by (simp add: exampleCluster_supplies exampleCluster_planned exampleNormalize_def
      LessThan_min_three)

section \<open>No panic, and the diff the functions leave\<close>

text \<open>
  C9: for a diff whose schema supplies \<open>az_mode\<close>, \<open>engine\<close>, \<open>engine_version\<close> and
  \<open>final_snapshot_identifier\<close> as strings, \<open>num_cache_nodes\<close> as an int and
  \<open>multi_az_enabled\<close>, \<open>automatic_failover_enabled\<close> and
  \<open>transit_encryption_enabled\<close> as bools, each of the six functions of diff.go returns
  (nil or an error): no type assertion panics.
\<close>

theorem CustomizeDiff_functions_return:
  assumes "declaredFieldTypes d"
  shows "(\<exists>e. fst (CustomizeDiffValidateClusterAZMode d) = Return e) \<and>
         (\<exists>e. fst (CustomizeDiffValidateClusterNumCacheNodes d) = Return e) \<and>
         (\<exists>e. fst (CustomizeDiffClusterMemcachedNodeType d) = Return e) \<and>
         (\<exists>e. fst (CustomizeDiffValidateClusterMemcachedSnapshotIdentifier d) = Return e) \<and>
         (\<exists>e. fst (CustomizeDiffValidateReplicationGroupAutomaticFailover d) = Return e) \<and>
         (\<exists>e. fst (CustomizeDiffValidateTransitEncryptionEnabled nv cp d) = Return e)"
proof -
  from assms have
    az: "schemaSupplies d ''az_mode'' TypeString" and
    en: "schemaSupplies d ''engine'' TypeString" and
    ev: "schemaSupplies d ''engine_version'' TypeString" and
    fs: "schemaSupplies d ''final_snapshot_identifier'' TypeString" and
    nc: "schemaSupplies d ''num_cache_nodes'' TypeInt" and
    ma: "schemaSupplies d ''multi_az_enabled'' TypeBool" and
    af: "schemaSupplies d ''automatic_failover_enabled'' TypeBool" and
    te: "schemaSupplies d ''transit_encryption_enabled'' TypeBool"
    by (simp_all add: declaredFieldTypes_def)
  have 1: "\<exists>e. fst (CustomizeDiffValidateClusterAZMode d) = Return e"
    using planned_String[OF az] planned_Int[OF nc]
    by (auto simp: CustomizeDiffValidateClusterAZMode_def GetOk_supplied[OF az]
        GetOk_supplied[OF nc])
  have 2: "\<exists>e. fst (CustomizeDiffValidateClusterNumCacheNodes d) = Return e"
    using planned_String[OF en] planned_Int[OF nc]
    by (auto simp: CustomizeDiffValidateClusterNumCacheNodes_def GetOk_supplied[OF en]
        GetOk_supplied[OF nc])
  have 3: "\<exists>e. fst (CustomizeDiffClusterMemcachedNodeType d) = Return e"
    using planned_String[OF en]
    by (auto simp: CustomizeDiffClusterMemcachedNodeType_def GetOk_supplied[OF en]
        split: prod.splits)
  have 4: "\<exists>e. fst (CustomizeDiffValidateClusterMemcachedSnapshotIdentifier d) = Return e"
    using planned_String[OF en]
    by (auto simp: CustomizeDiffValidateClusterMemcachedSnapshotIdentifier_def
        GetOk_supplied[OF en] split: prod.splits)
  have 5: "\<exists>e. fst (CustomizeDiffValidateReplicationGroupAutomaticFailover d) = Return e"
    using planned_Bool[OF ma] planned_Bool[OF af]
    by (auto simp: CustomizeDiffValidateReplicationGroupAutomaticFailover_def
        Get_supplied[OF ma] Get_supplied[OF af])
  have 6: "\<exists>e. fst (CustomizeDiffValidateTransitEncryptionEnabled nv cp d) = Return e"
  proof (cases "planned d ''transit_encryption_enabled'' = Some (VBool True)")
    case True
    show ?thesis
      unfolding TransitEncryption_on[OF te en ev True]
      by (simp split: option.splits val.splits sum.splits)
  next
    case False
    then show ?thesis by (simp add: TransitEncryption_off[OF te])
  qed
  from 1 2 3 4 5 6 show ?thesis by blast
qed

theorem CustomizeDiff_functions_return_witness:
  "declaredFieldTypes (exampleCluster ''memcached'' 2 ''1.6.12'') \<and>
   (\<exists>e. fst (CustomizeDiffValidateClusterAZMode (exampleCluster ''memcached'' 2 ''1.6.12''))
          = Return e) \<and>
   (\<exists>e. fst (CustomizeDiffValidateClusterNumCacheNodes (exampleCluster ''memcached'' 2 ''1.6.12''))
          = Return e) \<and>
   (\<exists>e. fst (CustomizeDiffClusterMemcachedNodeType (exampleCluster ''memcached'' 2 ''1.6.12''))
          = Return e) \<and>
   (\<exists>e. fst (CustomizeDiffValidateClusterMemcachedSnapshotIdentifier
               (exampleCluster ''memcached'' 2 ''1.6.12'')) = Return e) \<and>
   (\<exists>e. fst (CustomizeDiffValidateReplicationGroupAutomaticFailover
               (exampleCluster ''memcached'' 2 ''1.6.12'')) = Return e) \<and>
   (\<exists>e. fst (CustomizeDiffValidateTransitEncryptionEnabled exampleNormalize examplePrereleases
               (exampleCluster ''memcached'' 2 ''1.6.12'')) = Return e)"
proof -
  have h: "declaredFieldTypes (exampleCluster ''memcached'' 2 ''1.6.12'')"
    by (simp add: declaredFieldTypes_def exampleCluster_supplies)
  from h CustomizeDiff_functions_return[OF h, of exampleNormalize examplePrereleases]
  show ?thesis by (rule conjI)
qed

text \<open>
  A diff with \<open>engine\<close> declared as an int, on which the type assertion of
  \<^verbatim>\<open>CustomizeDiffValidateClusterNumCacheNodes\<close> panics: the declared field types are
  needed.
\<close>

lemma NumCacheNodes_panics_on_int_engine:
  "fst (CustomizeDiffValidateClusterNumCacheNodes
          (diffOf ''cluster-1'' [(''engine'', field TypeInt None (Some (VInt 4)))])) = Panic"
  by (simp add: CustomizeDiffValidateClusterNumCacheNodes_def GetOk_def Get_def diffOf_def
      field_def)

text \<open>
  C10: each of the five validating functions leaves the diff as it received it, whatever
  it returns; \<^verbatim>\<open>CustomizeDiffClusterMemcachedNodeType\<close> leaves either the diff it
  received or the diff that \<^verbatim>\<open>ForceNew("node_type")\<close> leaves, and there is a diff that
  it does change.
\<close>

theorem validators_leave_diff:
  \<open>snd (CustomizeDiffValidateClusterAZMode d) = d \<and>
   snd (CustomizeDiffValidateClusterNumCacheNodes d) = d \<and>
   snd (CustomizeDiffValidateClusterMemcachedSnapshotIdentifier d) = d \<and>
   snd (CustomizeDiffValidateReplicationGroupAutomaticFailover d) = d \<and>
   snd (CustomizeDiffValidateTransitEncryptionEnabled nv cp d) = d \<and>
   (snd (CustomizeDiffClusterMemcachedNodeType d) = d \<or>
    snd (CustomizeDiffClusterMemcachedNodeType d) = snd (ForceNew d ''node_type'')) \<and>
   (\<exists>d'. snd (CustomizeDiffClusterMemcachedNodeType d') \<noteq> d')\<close>
proof (intro conjI)
  show "snd (CustomizeDiffValidateClusterAZMode d) = d"
    by (simp add: CustomizeDiffValidateClusterAZMode_def split: prod.splits option.splits)
  show "snd (CustomizeDiffValidateClusterNumCacheNodes d) = d"
    by (simp add: CustomizeDiffValidateClusterNumCacheNodes_def
        split: prod.splits option.splits)
  show "snd (CustomizeDiffValidateClusterMemcachedSnapshotIdentifier d) = d"
    by (simp add: CustomizeDiffValidateClusterMemcachedSnapshotIdentifier_def
        split: prod.splits option.splits)
  show "snd (CustomizeDiffValidateReplicationGroupAutomaticFailover d) = d"
    by (simp add: CustomizeDiffValidateReplicationGroupAutomaticFailover_def
        split: prod.splits option.splits)
  show "snd (CustomizeDiffValidateTransitEncryptionEnabled nv cp d) = d"
    by (simp add: CustomizeDiffValidateTransitEncryptionEnabled_def
        split: prod.splits option.splits sum.splits)
  show "snd (CustomizeDiffClusterMemcachedNodeType d) = d \<or>
    snd (CustomizeDiffClusterMemcachedNodeType d) = snd (ForceNew d ''node_type'')"
    by (simp add: CustomizeDiffClusterMemcachedNodeType_def split: prod.splits option.splits)
  have a: "forcedNewKeys (snd (CustomizeDiffClusterMemcachedNodeType
           (exampleCluster ''memcached'' 2 ''1.6.6''))) = {''node_type''}"
    by (simp add: CustomizeDiffClusterMemcachedNodeType_def exampleCluster_def diffOf_def
        field_def Id_diff_def HasChange_def Get_def GetOld_def GetOk_def ForceNew_def
        engineRedis_def)
  have b: "forcedNewKeys (exampleCluster ''memcached'' 2 ''1.6.6'') = {}"
    by (simp add: exampleCluster_def diffOf_def)
  have "snd (CustomizeDiffClusterMemcachedNodeType
      (exampleCluster ''memcached'' 2 ''1.6.6'')) \<noteq> exampleCluster ''memcached'' 2 ''1.6.6''"
  proof
    assume "snd (CustomizeDiffClusterMemcachedNodeType
      (exampleCluster ''memcached'' 2 ''1.6.6'')) = exampleCluster ''memcached'' 2 ''1.6.6''"
    then have "forcedNewKeys (snd (CustomizeDiffClusterMemcachedNodeType
        (exampleCluster ''memcached'' 2 ''1.6.6'')))
      = forcedNewKeys (exampleCluster ''memcached'' 2 ''1.6.6'')"
      by (rule arg_cong)
    with a b show False by simp
  qed
  then show "\<exists>d'. snd (CustomizeDiffClusterMemcachedNodeType d') \<noteq> d'" ..
qed

theorem validators_leave_diff_witness:
  \<open>snd (CustomizeDiffValidateClusterAZMode (exampleCluster ''memcached'' 1 ''1.6.6''))
     = exampleCluster ''memcached'' 1 ''1.6.6'' \<and>
   snd (CustomizeDiffValidateClusterNumCacheNodes (exampleCluster ''memcached'' 1 ''1.6.6''))
     = exampleCluster ''memcached'' 1 ''1.6.6'' \<and>
   snd (CustomizeDiffValidateClusterMemcachedSnapshotIdentifier
          (exampleCluster ''memcached'' 1 ''1.6.6''))
     = exampleCluster ''memcached'' 1 ''1.6.6'' \<and>
   snd (CustomizeDiffValidateReplicationGroupAutomaticFailover
          (exampleCluster ''memcached'' 1 ''1.6.6''))
     = exampleCluster ''memcached'' 1 ''1.6.6'' \<and>
   snd (CustomizeDiffValidateTransitEncryptionEnabled exampleNormalize examplePrereleases
          (exampleCluster ''memcached'' 1 ''1.6.6''))
     = exampleCluster ''memcached'' 1 ''1.6.6'' \<and>
   (snd (CustomizeDiffClusterMemcachedNodeType (exampleCluster ''memcached'' 1 ''1.6.6''))
      = exampleCluster ''memcached'' 1 ''1.6.6'' \<or>
    snd (CustomizeDiffClusterMemcachedNodeType (exampleCluster ''memcached'' 1 ''1.6.6''))
      = snd (ForceNew (exampleCluster ''memcached'' 1 ''1.6.6'') ''node_type''))\<close>
  using validators_leave_diff[of "exampleCluster ''memcached'' 1 ''1.6.6''"
      exampleNormalize examplePrereleases]
  by blast

section \<open>The destroy check\<close>

lemma checkSinkDestroyLoop_find:
  "checkSinkDestroyLoop GetSink createError rss =
     (case find (\<lambda>(name, rs). Type rs = ''aws_oam_sink'') rss of
        None \<Rightarrow> None
      | Some (name, rs) \<Rightarrow>
          (case GetSink (ID (Primary rs)) of
             Inl err \<Rightarrow> (if errorsAs_ResourceNotFoundException err then None else Some err)
           | Inr out \<Rightarrow> Some (createError (ID (Primary rs)) (ErrorsNew ''not destroyed''))))"
proof (induction rss)
  case Nil
  show ?case by simp
next
  case (Cons x rss)
  obtain name rs where x: "x = (name, rs)" by (cases x)
  show ?case
  proof (cases "Type rs = ''aws_oam_sink''")
    case True
    with x show ?thesis by simp
  next
    case False
    with x Cons.IH show ?thesis by simp
  qed
qed

lemma find_first_sink:
  assumes "\<forall>(m, r) \<in> set before. Type r \<noteq> ''aws_oam_sink''" and "Type rs = ''aws_oam_sink''"
  shows "find (\<lambda>(name, rs). Type rs = ''aws_oam_sink'') (before @ (n, rs) # later) = Some (n, rs)"
  using assms by (induction before) auto

text \<open>
  C8: the result of \<^verbatim>\<open>testAccCheckSinkDestroy\<close> is decided by the first resource of
  type \<^verbatim>\<open>aws_oam_sink\<close> that the loop over the resources of the root module visits. It
  is nil when there is none, or when \<^verbatim>\<open>GetSink\<close> on the id of that resource fails with
  an error that is a \<^verbatim>\<open>ResourceNotFoundException\<close>; it is the "not destroyed" error of
  \<^verbatim>\<open>create.Error\<close> when \<^verbatim>\<open>GetSink\<close> succeeds; it is the error of \<^verbatim>\<open>GetSink\<close> itself
  otherwise. The resources after that one are not looked at: neither replacing them nor
  changing what \<^verbatim>\<open>GetSink\<close> answers for other ids changes the result.
\<close>

theorem SinkDestroy_first_sink:
  "testAccCheckSinkDestroy GetSink createError s =
     (case find (\<lambda>(name, rs). Type rs = ''aws_oam_sink'') (Resources (RootModule s)) of
        None \<Rightarrow> None
      | Some (name, rs) \<Rightarrow>
          (case GetSink (ID (Primary rs)) of
             Inl err \<Rightarrow> (if errorsAs_ResourceNotFoundException err then None else Some err)
           | Inr out \<Rightarrow> Some (createError (ID (Primary rs)) (ErrorsNew ''not destroyed'')))) \<and>
   (\<forall>before n rs later later' GetSink'.
      Resources (RootModule s) = before @ (n, rs) # later \<and>
      (\<forall>(m, r) \<in> set before. Type r \<noteq> ''aws_oam_sink'') \<and>
      Type rs = ''aws_oam_sink'' \<and>
      GetSink' (ID (Primary rs)) = GetSink (ID (Primary rs)) \<longrightarrow>
      testAccCheckSinkDestroy GetSink createError s =
        testAccCheckSinkDestroy GetSink' createError
          \<lparr>rootModule = \<lparr>Resources = before @ (n, rs) # later'\<rparr>\<rparr>)"
proof (intro conjI allI impI)
  show "testAccCheckSinkDestroy GetSink createError s =
     (case find (\<lambda>(name, rs). Type rs = ''aws_oam_sink'') (Resources (RootModule s)) of
        None \<Rightarrow> None
      | Some (name, rs) \<Rightarrow>
          (case GetSink (ID (Primary rs)) of
             Inl err \<Rightarrow> (if errorsAs_ResourceNotFoundException err then None else Some err)
           | Inr out \<Rightarrow> Some (createError (ID (Primary rs)) (ErrorsNew ''not destroyed''))))"
    unfolding testAccCheckSinkDestroy_def by (rule checkSinkDestroyLoop_find)
next
  fix before n rs later later' and GetSink' :: "string \<Rightarrow> error + 'a"
  assume h: "Resources (RootModule s) = before @ (n, rs) # later \<and>
      (\<forall>(m, r) \<in> set before. Type r \<noteq> ''aws_oam_sink'') \<and>
      Type rs = ''aws_oam_sink'' \<and>
      GetSink' (ID (Primary rs)) = GetSink (ID (Primary rs))"
  then have f1: "find (\<lambda>(name, rs). Type rs = ''aws_oam_sink'') (before @ (n, rs) # later)
                   = Some (n, rs)"
    and f2: "find (\<lambda>(name, rs). Type rs = ''aws_oam_sink'') (before @ (n, rs) # later')
                   = Some (n, rs)"
    by (simp_all add: find_first_sink)
  from h f1 f2 show "testAccCheckSinkDestroy GetSink createError s =
        testAccCheckSinkDestroy GetSink' createError
          \<lparr>rootModule = \<lparr>Resources = before @ (n, rs) # later'\<rparr>\<rparr>"
    by (simp add: testAccCheckSinkDestroy_def checkSinkDestroyLoop_find RootModule_def)
qed

theorem SinkDestroy_first_sink_witness:
  "testAccCheckSinkDestroy exampleGetSink exampleCreateError
     \<lparr>rootModule = \<lparr>Resources = exampleResources\<rparr>\<rparr> = None \<and>
   testAccCheckSinkDestroy exampleGetSink exampleCreateError
     \<lparr>rootModule = \<lparr>Resources = exampleResources\<rparr>\<rparr> =
   testAccCheckSinkDestroy (\<lambda>i. if i = ''sink-1'' then exampleGetSink i else Inl (OtherError ''timeout'')) exampleCreateError
     \<lparr>rootModule = \<lparr>Resources = take 2 exampleResources\<rparr>\<rparr>"
proof -
  let ?s = "\<lparr>rootModule = \<lparr>Resources = exampleResources\<rparr>\<rparr>"
  let ?G = "\<lambda>i. if i = ''sink-1'' then exampleGetSink i else Inl (OtherError ''timeout'')"
  let ?a = "(''aws_route_table.test'', \<lparr>Type = ''aws_route_table'', Primary = \<lparr>ID = ''rtb-1''\<rparr>\<rparr>)"
  let ?rs = "\<lparr>Type = ''aws_oam_sink'', Primary = \<lparr>ID = ''sink-1''\<rparr>\<rparr>"
  let ?c = "(''aws_oam_sink.other'', \<lparr>Type = ''aws_oam_sink'', Primary = \<lparr>ID = ''sink-2''\<rparr>\<rparr>)"
  note inst = SinkDestroy_first_sink[of exampleGetSink exampleCreateError ?s]
  have first: "testAccCheckSinkDestroy exampleGetSink exampleCreateError ?s = None"
    using inst[THEN conjunct1]
    by (simp add: RootModule_def exampleResources_def exampleGetSink_def)
  have h: "Resources (RootModule ?s) = [?a] @ (''aws_oam_sink.test'', ?rs) # [?c] \<and>
      (\<forall>(m, r) \<in> set [?a]. Type r \<noteq> ''aws_oam_sink'') \<and>
      Type ?rs = ''aws_oam_sink'' \<and>
      ?G (ID (Primary ?rs)) = exampleGetSink (ID (Primary ?rs))"
    by (simp add: RootModule_def exampleResources_def exampleGetSink_def)
  have second: "testAccCheckSinkDestroy exampleGetSink exampleCreateError ?s =
        testAccCheckSinkDestroy ?G exampleCreateError
          \<lparr>rootModule = \<lparr>Resources = [?a] @ (''aws_oam_sink.test'', ?rs) # []\<rparr>\<rparr>"
    by (rule inst[THEN conjunct2, rule_format, where before = "[?a]" and later = "[?c]"
          and GetSink' = ?G, OF h])
  from first second show ?thesis by (simp add: exampleResources_def)
qed

end
